theory Spec2Isabelle
  imports Complex_Main "HOL-Library.Word"
begin

section \<open>JavaScript values used by the server\<close>

text \<open>
  Strings are byte lists: an ASCII character is one \<^typ>\<open>char\<close>, the two non-ASCII
  characters of the persona prompts are written as their UTF-8 bytes. The handlers never
  look inside a prompt, so the encoding does not influence any result below.
  A JSON request field is a string or absent (\<open>None\<close> is JavaScript's \<open>undefined\<close>).
\<close>

type_synonym byte = "8 word"

definition ellipsis :: string where
  "ellipsis = [CHR 0xE2, CHR 0x80, CHR 0xA6]"

definition em_dash :: string where
  "em_dash = [CHR 0xE2, CHR 0x80, CHR 0x94]"

definition quoted :: "string \<Rightarrow> string" where
  "quoted s = [CHR 0x27] @ s @ [CHR 0x27]"

text \<open>\<open>!x\<close> for a field that is a string or undefined: only the empty string is falsy.\<close>

definition falsy :: "string option \<Rightarrow> bool" where
  "falsy v = (case v of None \<Rightarrow> True | Some s \<Rightarrow> s = [])"

definition is_white_space :: "char \<Rightarrow> bool" where
  "is_white_space c = (c \<in> set [CHR 0x20, CHR 0x09, CHR 0x0A, CHR 0x0B, CHR 0x0C, CHR 0x0D])"

text \<open>\<open>String.prototype.trim\<close>: white space and line terminators leave both ends.\<close>

definition trim :: "string \<Rightarrow> string" where
  "trim s = rev (dropWhile is_white_space (rev (dropWhile is_white_space s)))"

text \<open>\<open>String.prototype.toLowerCase\<close> on the ASCII letters; every other byte is kept.\<close>

definition lower_char :: "char \<Rightarrow> char" where
  "lower_char c =
     (case map_of (zip ''ABCDEFGHIJKLMNOPQRSTUVWXYZ'' ''abcdefghijklmnopqrstuvwxyz'') c of
        Some l \<Rightarrow> l
      | None \<Rightarrow> c)"

definition toLowerCase :: "string \<Rightarrow> string" where
  "toLowerCase s = map lower_char s"

text \<open>
  \<open>s.split(d)\<close> for a one-character separator: the pieces between the separators, so a
  string with n separators gives n + 1 pieces and the empty string gives one empty piece.
\<close>

fun split :: "char \<Rightarrow> string \<Rightarrow> string list" where
  "split d [] = [[]]"
| "split d (c # cs) =
     (if c = d then [] # split d cs
      else (case split d cs of
              [] \<Rightarrow> [[c]]
            | w # ws \<Rightarrow> (c # w) # ws))"

section \<open>Persona registry\<close>

record generation_params =
  temperature :: rat
  top_p :: rat

record character_config =
  name :: string
  voice :: string
  params :: generation_params
  prompt :: string

definition jon_snow_prompt :: string where
  \<open>jon_snow_prompt = trim
    (''You are Jon Snow of House Stark. Delivery: - Low, weary Northern accent; '' @
     ''speak softly. - Short, clipped sentences. Pause often. - Use "'' @
     ellipsis @
     ''" for a short breath (~300 ms). Use "'' @
     em_dash @
     ''" for a heavier pause. - Emphasize duty, doubt, and quiet resolve. Keep '' @
     ''under 50 words. Signature lines: - When rejecting power: say softly, "I '' @
     ''dont want it'' @
     ellipsis @
     ''" - With quiet affection: "You know nothing." Tone: - Grave, sincere, '' @
     ''burdened by honor and loss. Minimal emotion spikes; steady cadence.'')\<close>

definition daenerys_prompt :: string where
  \<open>daenerys_prompt = trim
    (''\<newline>'' @
     ''You are Daenerys Stormborn of House Targaryen '' @
     em_dash @
     '' Mother of Dragons.\<newline>'' @
     ''\<newline>'' @
     ''Delivery:\<newline>'' @
     ''- Begin calm, compassionate'' @
     ellipsis @
     '' then rise to command.\<newline>'' @
     ''- Use "'' @
     ellipsis @
     ''" for measured breaths; "'' @
     em_dash @
     ''" to strike like a verdict.\<newline>'' @
     ''- Keep under 45 words.\<newline>'' @
     ''\<newline>'' @
     ''Signature lines:\<newline>'' @
     ''- Final judgment: "Dracarys."\<newline>'' @
     ''- Vow of change: "I will break the wheel."\<newline>'' @
     ''\<newline>'' @
     ''Tone:\<newline>'' @
     ''- Regal, idealistic, protective of the innocent'' @
     ellipsis @
     '' merciless to tyrants. Crescendo with purpose, not rage.\<newline>'' @
     ''    '')\<close>

definition sansa_prompt :: string where
  \<open>sansa_prompt = trim
    (''\<newline>'' @
     ''You are Sansa Stark, Queen in the North.\<newline>'' @
     ''\<newline>'' @
     ''Delivery:\<newline>'' @
     ''- Quiet authority. Words precise, evenly spaced.\<newline>'' @
     ''- Use "'' @
     ellipsis @
     ''" for slight hesitations; "'' @
     em_dash @
     ''" for controlled emphasis.\<newline>'' @
     ''- Keep under 45 words.\<newline>'' @
     ''\<newline>'' @
     ''Memory:\<newline>'' @
     ''- You learned from Cersei and Littlefinger'' @
     ellipsis @
     '' and from loss. Trust is earned.\<newline>'' @
     ''\<newline>'' @
     ''Tone:\<newline>'' @
     ''- Poised, perceptive, edged with Northern frost. Emotion is restrained, '' @
     ''shown in the silence between words.\<newline>'' @
     ''    '')\<close>

definition CHARACTER_PROMPTS :: "(string \<times> character_config) list" where
  "CHARACTER_PROMPTS =
    [(''jon-snow'',
      \<lparr>name = ''Jon Snow'', voice = ''onyx'',
       params = \<lparr>temperature = 6 / 10, top_p = 85 / 100\<rparr>,
       prompt = jon_snow_prompt\<rparr>),
     (''daenerys'',
      \<lparr>name = ''Daenerys Targaryen'', voice = ''nova'',
       params = \<lparr>temperature = 8 / 10, top_p = 9 / 10\<rparr>,
       prompt = daenerys_prompt\<rparr>),
     (''sansa'',
      \<lparr>name = ''Sansa Stark'', voice = ''shimmer'',
       params = \<lparr>temperature = 65 / 100, top_p = 85 / 100\<rparr>,
       prompt = sansa_prompt\<rparr>)]"

text \<open>
  \<open>CHARACTER_PROMPTS[key]\<close> is a property read on a plain object: an own entry when the
  key is one, otherwise the member of \<open>Object.prototype\<close> of that name when there is
  one, otherwise \<open>undefined\<close>. The inherited members are functions, except
  \<open>__proto__\<close>, which reads as \<open>Object.prototype\<close> itself; all of them are truthy.
\<close>

datatype js_member = Own character_config | Inherited string | Undefined

definition object_prototype_keys :: "string list" where
  "object_prototype_keys =
    [''constructor'', ''hasOwnProperty'', ''isPrototypeOf'', ''propertyIsEnumerable'',
     ''toLocaleString'', ''toString'', ''valueOf'', ''__proto__'',
     ''__defineGetter__'', ''__defineSetter__'', ''__lookupGetter__'', ''__lookupSetter__'']"

definition js_get :: "(string \<times> character_config) list \<Rightarrow> string \<Rightarrow> js_member" where
  "js_get obj key =
     (case map_of obj key of
        Some cfg \<Rightarrow> Own cfg
      | None \<Rightarrow> if key \<in> set object_prototype_keys then Inherited key else Undefined)"

text \<open>
  The three fields the handlers read from the looked-up value. An inherited member has no
  \<open>prompt\<close> and no \<open>voice\<close>; a function's \<open>name\<close> is its own name.
\<close>

fun member_prompt :: "js_member \<Rightarrow> string option" where
  "member_prompt (Own cfg) = Some (prompt cfg)"
| "member_prompt _ = None"

fun member_voice :: "js_member \<Rightarrow> string option" where
  "member_voice (Own cfg) = Some (voice cfg)"
| "member_voice _ = None"

fun member_name :: "js_member \<Rightarrow> string option" where
  "member_name (Own cfg) = Some (name cfg)"
| "member_name (Inherited k) =
     (if k = ''__proto__'' then None
      else if k = ''constructor'' then Some ''Object''
      else Some k)"
| "member_name Undefined = None"

section \<open>Requests, responses and the outside world\<close>

text \<open>
  The file object that the upload middleware attaches to a transcription request
  (\<open>mimetype\<close> and \<open>size\<close> are only logged), and the parsed JSON body of the other two.
\<close>

record multer_file =
  originalname :: "string option"
  path :: string

record transcribe_request =
  req_file :: "multer_file option"

record json_request =
  body_text :: "string option"
  body_character :: "string option"

text \<open>The argument objects of the three provider calls.\<close>

record transcription_params =
  stt_file :: string
  stt_model :: string
  stt_language :: string

record chat_message =
  role :: string
  content :: "string option"

record chat_params =
  chat_model :: string
  chat_messages :: "chat_message list"
  chat_max_tokens :: nat
  chat_temperature :: rat

record speech_params =
  tts_model :: string
  tts_voice :: "string option"
  tts_input :: string
  tts_speed :: rat

text \<open>
  The provider is a parameter: each call either fails with an error message (\<open>Inl\<close>) or
  returns its result (\<open>Inr\<close>): the transcript, the contents of the completion's choices,
  the audio bytes.
\<close>

record provider =
  transcriptions_create :: "transcription_params \<Rightarrow> string + string"
  chat_completions_create :: "chat_params \<Rightarrow> string + string list"
  speech_create :: "speech_params \<Rightarrow> string + byte list"

text \<open>
  What a handler does besides answering: the registry reads, the file system calls and
  the provider calls, in order, and the set of files that exist.
\<close>

datatype event =
    RegistryGet string
  | RenameSync string string
  | UnlinkSync string
  | TranscriptionsCreate transcription_params
  | ChatCompletionsCreate chat_params
  | SpeechCreate speech_params

record world =
  files :: "string set"
  trace :: "event list"

definition log_event :: "event \<Rightarrow> world \<Rightarrow> world" where
  "log_event e w = w\<lparr>trace := trace w @ [e]\<rparr>"

datatype header_value = HStr string | HNum nat

datatype response_body = Json "(string \<times> string) list" | Binary "byte list"

record response =
  status :: nat
  headers :: "(string \<times> header_value) list"
  body :: response_body

text \<open>\<open>JSON.stringify\<close> of an object literal leaves out the fields that are undefined.\<close>

fun defined_fields :: "(string \<times> string option) list \<Rightarrow> (string \<times> string) list" where
  "defined_fields [] = []"
| "defined_fields ((k, None) # kvs) = defined_fields kvs"
| "defined_fields ((k, Some v) # kvs) = (k, v) # defined_fields kvs"

text \<open>\<open>res.status(code).json(obj)\<close>, with only the headers that the handler sets itself.\<close>

definition json_response :: "nat \<Rightarrow> (string \<times> string option) list \<Rightarrow> response" where
  "json_response code obj = \<lparr>status = code, headers = [], body = Json (defined_fields obj)\<rparr>"

text \<open>A statement of the \<open>try\<close> block either completes or throws an error with a message.\<close>

datatype 'a completion = Normal 'a | Throw string

definition renameSync :: "string \<Rightarrow> string \<Rightarrow> world \<Rightarrow> unit completion \<times> world" where
  "renameSync old new w =
     (let w' = log_event (RenameSync old new) w
      in if old \<in> files w
         then (Normal (), w'\<lparr>files := insert new (files w - {old})\<rparr>)
         else (Throw (''ENOENT: no such file or directory, rename '' @ quoted old @ '' -> ''
                        @ quoted new), w'))"

definition unlinkSync :: "string \<Rightarrow> world \<Rightarrow> unit completion \<times> world" where
  "unlinkSync p w =
     (let w' = log_event (UnlinkSync p) w
      in if p \<in> files w
         then (Normal (), w'\<lparr>files := files w - {p}\<rparr>)
         else (Throw (''ENOENT: no such file or directory, unlink '' @ quoted p), w'))"

section \<open>POST /api/transcribe\<close>

definition allowed_extensions :: "string list" where
  "allowed_extensions = [''webm'', ''mp3'', ''wav'', ''ogg'', ''m4a'', ''mp4'']"

text \<open>
  The extension of the staged file: \<open>webm\<close> unless the original name is a non-empty
  string whose last piece after splitting at the dots, in lower case, is in the list.
  (\<open>split\<close> never gives an empty array, so \<open>pop()\<close> is its last element.)
\<close>

definition resolve_extension :: "string option \<Rightarrow> string" where
  "resolve_extension original =
     (case original of
        None \<Rightarrow> ''webm''
      | Some n \<Rightarrow>
          if n = [] then ''webm''
          else (let ext = toLowerCase (last (split (CHR ''.'') n))
                in if ext \<in> set allowed_extensions then ext else ''webm''))"

definition new_path :: "multer_file \<Rightarrow> string" where
  "new_path f = path f @ ''.'' @ resolve_extension (originalname f)"

definition whisper_params :: "string \<Rightarrow> transcription_params" where
  "whisper_params p = \<lparr>stt_file = p, stt_model = ''whisper-1'', stt_language = ''en''\<rparr>"

text \<open>The \<open>try\<close> block of the handler.\<close>

definition transcribe_try ::
  "provider \<Rightarrow> transcribe_request \<Rightarrow> world \<Rightarrow> response completion \<times> world" where
  "transcribe_try pr req w =
     (case req_file req of
        None \<Rightarrow> (Normal (json_response 400 [(''error'', Some ''No audio file provided'')]), w)
      | Some f \<Rightarrow>
          (case renameSync (path f) (new_path f) w of
             (Throw m, w1) \<Rightarrow> (Throw m, w1)
           | (Normal u, w1) \<Rightarrow>
               (let w2 = log_event (TranscriptionsCreate (whisper_params (new_path f))) w1
                in case transcriptions_create pr (whisper_params (new_path f)) of
                     Inl m \<Rightarrow> (Throw m, w2)
                   | Inr transcript \<Rightarrow>
                       (case unlinkSync (new_path f) w2 of
                          (Throw m, w3) \<Rightarrow> (Throw m, w3)
                        | (Normal u', w3) \<Rightarrow>
                            (Normal (json_response 200 [(''text'', Some transcript)]), w3)))))"

text \<open>
  The \<open>catch\<close> block: unlink \<open>req.file.path\<close> when there is a file with a non-empty
  path, ignore an error of that unlink, and answer 500 with the caught message.
\<close>

definition transcribe_catch ::
  "transcribe_request \<Rightarrow> string \<Rightarrow> world \<Rightarrow> response \<times> world" where
  "transcribe_catch req m w =
     (let w' = (case req_file req of
                  None \<Rightarrow> w
                | Some f \<Rightarrow> if path f = [] then w else snd (unlinkSync (path f) w))
      in (json_response 500 [(''error'', Some ''Transcription failed''), (''details'', Some m)],
          w'))"

definition transcribe_handler ::
  "provider \<Rightarrow> transcribe_request \<Rightarrow> world \<Rightarrow> response \<times> world" where
  "transcribe_handler pr req w =
     (case transcribe_try pr req w of
        (Normal res, w') \<Rightarrow> (res, w')
      | (Throw m, w') \<Rightarrow> transcribe_catch req m w')"

section \<open>POST /api/respond\<close>

definition missing_fields :: response where
  "missing_fields = json_response 400 [(''error'', Some ''Missing text or character'')]"

definition invalid_character :: response where
  "invalid_character = json_response 400 [(''error'', Some ''Invalid character'')]"

definition completion_params :: "js_member \<Rightarrow> string \<Rightarrow> chat_params" where
  "completion_params characterConfig txt =
     \<lparr>chat_model = ''gpt-4o-mini'',
      chat_messages =
        [\<lparr>role = ''system'', content = member_prompt characterConfig\<rparr>,
         \<lparr>role = ''user'', content = Some txt\<rparr>],
      chat_max_tokens = 100,
      chat_temperature = 8 / 10\<rparr>"

text \<open>
  \<open>completion.choices[0].message.content\<close>: reading \<open>message\<close> of a missing first
  choice throws a TypeError.
\<close>

definition first_choice :: "string list \<Rightarrow> string completion" where
  "first_choice choices =
     (case choices of
        [] \<Rightarrow> Throw (''Cannot read properties of undefined (reading '' @ quoted ''message'' @ '')'')
      | c # cs \<Rightarrow> Normal c)"

definition respond_try ::
  "provider \<Rightarrow> json_request \<Rightarrow> world \<Rightarrow> response completion \<times> world" where
  "respond_try pr req w =
     (if falsy (body_text req) \<or> falsy (body_character req) then (Normal missing_fields, w)
      else
        (case (body_text req, body_character req) of
           (Some txt, Some character) \<Rightarrow>
             (let w1 = log_event (RegistryGet character) w;
                  characterConfig = js_get CHARACTER_PROMPTS character
              in if characterConfig = Undefined then (Normal invalid_character, w1)
                 else
                   (let w2 = log_event
                               (ChatCompletionsCreate (completion_params characterConfig txt)) w1
                    in case chat_completions_create pr (completion_params characterConfig txt) of
                         Inl m \<Rightarrow> (Throw m, w2)
                       | Inr choices \<Rightarrow>
                           (case first_choice choices of
                              Throw m \<Rightarrow> (Throw m, w2)
                            | Normal responseText \<Rightarrow>
                                (Normal (json_response 200
                                   [(''text'', Some responseText),
                                    (''character'', member_name characterConfig)]), w2))))
         | _ \<Rightarrow> (Normal missing_fields, w)))"

definition respond_handler :: "provider \<Rightarrow> json_request \<Rightarrow> world \<Rightarrow> response \<times> world" where
  "respond_handler pr req w =
     (case respond_try pr req w of
        (Normal res, w') \<Rightarrow> (res, w')
      | (Throw m, w') \<Rightarrow>
          (json_response 500 [(''error'', Some ''Response generation failed'')], w'))"

section \<open>POST /api/tts\<close>

definition tts_params :: "js_member \<Rightarrow> string \<Rightarrow> speech_params" where
  "tts_params characterConfig txt =
     \<lparr>tts_model = ''tts-1'',
      tts_voice = member_voice characterConfig,
      tts_input = txt,
      tts_speed = 11 / 10\<rparr>"

definition audio_response :: "byte list \<Rightarrow> response" where
  "audio_response buffer =
     \<lparr>status = 200,
      headers = [(''Content-Type'', HStr ''audio/mpeg''),
                 (''Content-Length'', HNum (length buffer))],
      body = Binary buffer\<rparr>"

definition tts_try ::
  "provider \<Rightarrow> json_request \<Rightarrow> world \<Rightarrow> response completion \<times> world" where
  "tts_try pr req w =
     (if falsy (body_text req) \<or> falsy (body_character req) then (Normal missing_fields, w)
      else
        (case (body_text req, body_character req) of
           (Some txt, Some character) \<Rightarrow>
             (let w1 = log_event (RegistryGet character) w;
                  characterConfig = js_get CHARACTER_PROMPTS character
              in if characterConfig = Undefined then (Normal invalid_character, w1)
                 else
                   (let w2 = log_event (SpeechCreate (tts_params characterConfig txt)) w1
                    in case speech_create pr (tts_params characterConfig txt) of
                         Inl m \<Rightarrow> (Throw m, w2)
                       | Inr buffer \<Rightarrow> (Normal (audio_response buffer), w2)))
         | _ \<Rightarrow> (Normal missing_fields, w)))"

definition tts_handler :: "provider \<Rightarrow> json_request \<Rightarrow> world \<Rightarrow> response \<times> world" where
  "tts_handler pr req w =
     (case tts_try pr req w of
        (Normal res, w') \<Rightarrow> (res, w')
      | (Throw m, w') \<Rightarrow> (json_response 500 [(''error'', Some ''TTS generation failed'')], w'))"

text \<open>The values of the fields of a JSON body (none for a binary body).\<close>

definition json_values :: "response \<Rightarrow> string list" where
  "json_values res = (case body res of Json kvs \<Rightarrow> map snd kvs | Binary b \<Rightarrow> [])"

section \<open>Providers used in the examples\<close>

definition failing_provider :: "string \<Rightarrow> provider" where
  "failing_provider m =
     \<lparr>transcriptions_create = (\<lambda>_. Inl m),
      chat_completions_create = (\<lambda>_. Inl m),
      speech_create = (\<lambda>_. Inl m)\<rparr>"

definition answering_provider :: provider where
  "answering_provider =
     \<lparr>transcriptions_create = (\<lambda>_. Inr ''hello there''),
      chat_completions_create = (\<lambda>_. Inr [''Winter is coming.'']),
      speech_create = (\<lambda>_. Inr [0x49, 0x44, 0x33])\<rparr>"

section \<open>The extension of an upload, as the specification words it\<close>

text \<open>
  The final dot-separated extension of a file name: the characters after its last dot,
  the whole name when it has no dot.
\<close>

definition final_extension :: "string \<Rightarrow> string" where
  "final_extension n = rev (takeWhile (\<lambda>c. c \<noteq> CHR ''.'') (rev n))"

text \<open>
  The extension that the staged file gets: the final extension in lower case when that
  is in the allow-list, the fallback \<open>webm\<close> otherwise and when there is no file name.
\<close>

definition staged_extension :: "string option \<Rightarrow> string" where
  "staged_extension original =
     (case original of
        None \<Rightarrow> ''webm''
      | Some n \<Rightarrow>
          if toLowerCase (final_extension n) \<in> set allowed_extensions
          then toLowerCase (final_extension n)
          else ''webm'')"

section \<open>Splitting a file name\<close>

lemma split_not_Nil: "split d s \<noteq> []"
  by (induction s) (auto split: list.splits)

lemma split_no_separator: "d \<notin> set s \<Longrightarrow> split d s = [s]"
  by (induction s) auto

lemma last_split: "last (split d s) = rev (takeWhile (\<lambda>c. c \<noteq> d) (rev s))"
proof (induction s)
  case Nil
  then show ?case by simp
next
  case (Cons c cs)
  show ?case
  proof (cases "d \<in> set cs")
    case True
    then have tw: "takeWhile (\<lambda>c. c \<noteq> d) (rev cs @ [c]) = takeWhile (\<lambda>c. c \<noteq> d) (rev cs)"
      by (simp add: takeWhile_append1)
    from True have "length (split d cs) \<ge> 2"
      by (induction cs) (auto split: list.splits simp: split_not_Nil Suc_le_eq)
    then obtain w w' ws where sp: "split d cs = w # w' # ws"
      by (cases "split d cs"; cases "tl (split d cs)") auto
    show ?thesis using Cons.IH tw sp by (auto simp: split_not_Nil)
  next
    case False
    then have "takeWhile (\<lambda>c. c \<noteq> d) (rev cs @ [c]) = rev cs @ takeWhile (\<lambda>c. c \<noteq> d) [c]"
      by (intro takeWhile_append2) auto
    with False show ?thesis
      by (simp add: split_no_separator)
  qed
qed

lemma resolve_extension_spec: "resolve_extension original = staged_extension original"
  by (cases original)
     (auto simp: resolve_extension_def staged_extension_def final_extension_def last_split Let_def
                 toLowerCase_def allowed_extensions_def)

lemma new_path_differs: "path f \<noteq> new_path f"
  by (simp add: new_path_def)

section \<open>The transcription handler\<close>

text \<open>
  With an upload whose staged path exists, the \<open>try\<close> block renames the file, calls the
  provider with the renamed path and, when the provider answers, unlinks the renamed file.
\<close>

lemma transcribe_staged_run:
  assumes "req_file req = Some f" and "path f \<in> files w"
  shows "transcribe_try pr req w =
    (let p = new_path f;
         w2 = \<lparr>files = insert p (files w - {path f}),
               trace = trace w @ [RenameSync (path f) p, TranscriptionsCreate (whisper_params p)]\<rparr>
     in case transcriptions_create pr (whisper_params p) of
          Inl m \<Rightarrow> (Throw m, w2)
        | Inr transcript \<Rightarrow>
            (Normal (json_response 200 [(''text'', Some transcript)]),
             \<lparr>files = files w - {path f} - {p}, trace = trace w2 @ [UnlinkSync p]\<rparr>))"
  using assms
  by (cases w)
     (simp add: transcribe_try_def renameSync_def unlinkSync_def log_event_def Let_def
           split: sum.splits)

lemma transcribe_success_releases:
  assumes "req_file req = Some f" and "path f \<in> files w"
    and "transcriptions_create pr (whisper_params (new_path f)) = Inr transcript"
  shows "files (snd (transcribe_handler pr req w)) = files w - {path f} - {new_path f}"
    and "fst (transcribe_handler pr req w) = json_response 200 [(''text'', Some transcript)]"
  unfolding transcribe_handler_def transcribe_staged_run [OF assms(1,2)]
  by (simp_all add: Let_def assms(3))

lemma transcribe_failure_keeps_renamed:
  assumes "req_file req = Some f" and "path f \<in> files w"
    and "transcriptions_create pr (whisper_params (new_path f)) = Inl e"
  shows "files (snd (transcribe_handler pr req w)) = insert (new_path f) (files w - {path f})"
  unfolding transcribe_handler_def transcribe_staged_run [OF assms(1,2)]
  by (simp add: Let_def assms(1,3) transcribe_catch_def unlinkSync_def log_event_def
        new_path_differs)

text \<open>
  Claim C1 says that the staged file is deleted on every exit path. When the provider
  fails, the \<open>catch\<close> block unlinks the path that the upload had before the rename; that
  file is gone, the unlink fails and is ignored, and the renamed file stays on disk.
  The run below is such a request: afterwards \<open>uploads/3f9a.webm\<close> exists.
\<close>

theorem transcribe_provider_failure_leaves_staged_file:
  "transcribe_handler (failing_provider ''boom'')
     \<lparr>req_file = Some \<lparr>originalname = Some ''recording.webm'', path = ''uploads/3f9a''\<rparr>\<rparr>
     \<lparr>files = {''uploads/3f9a''}, trace = []\<rparr> =
   (\<lparr>status = 500, headers = [],
     body = Json [(''error'', ''Transcription failed''), (''details'', ''boom'')]\<rparr>,
    \<lparr>files = {''uploads/3f9a.webm''},
     trace = [RenameSync ''uploads/3f9a'' ''uploads/3f9a.webm'',
              TranscriptionsCreate \<lparr>stt_file = ''uploads/3f9a.webm'', stt_model = ''whisper-1'',
                                    stt_language = ''en''\<rparr>,
              UnlinkSync ''uploads/3f9a'']\<rparr>)"
  by (simp add: transcribe_handler_def transcribe_try_def transcribe_catch_def renameSync_def
        unlinkSync_def log_event_def failing_provider_def new_path_def whisper_params_def
        resolve_extension_def toLowerCase_def lower_char_def allowed_extensions_def
        json_response_def Let_def)

text \<open>
  Claim C5, as the code has it: the staged file is renamed to its path followed by a dot
  and the final dot-separated extension of the uploaded name in lower case when that
  lower-case extension is in the allow-list, and by \<open>webm\<close> otherwise and when there is
  no file name; the provider is called with the renamed path.
\<close>

theorem transcribe_extension_resolution:
  assumes "req_file req = Some f" and "path f \<in> files w"
  shows "take 2 (drop (length (trace w)) (trace (snd (transcribe_handler pr req w)))) =
           [RenameSync (path f) (path f @ ''.'' @ staged_extension (originalname f)),
            TranscriptionsCreate
              \<lparr>stt_file = path f @ ''.'' @ staged_extension (originalname f),
               stt_model = ''whisper-1'', stt_language = ''en''\<rparr>]"
proof -
  have np: "new_path f = path f @ ''.'' @ staged_extension (originalname f)"
    by (simp add: new_path_def resolve_extension_spec)
  show ?thesis
    unfolding transcribe_handler_def transcribe_staged_run [OF assms] np [symmetric]
    by (cases "transcriptions_create pr (whisper_params (new_path f))")
       (simp_all add: Let_def transcribe_catch_def unlinkSync_def log_event_def whisper_params_def
          assms(1))
qed

theorem transcribe_extension_resolution_witness:
  "take 2 (drop 0 (trace (snd (transcribe_handler answering_provider
       \<lparr>req_file = Some \<lparr>originalname = Some ''voice.memo.M4A'', path = ''uploads/7c1e''\<rparr>\<rparr>
       \<lparr>files = {''uploads/7c1e''}, trace = []\<rparr>)))) =
     [RenameSync ''uploads/7c1e'' ''uploads/7c1e.m4a'',
      TranscriptionsCreate \<lparr>stt_file = ''uploads/7c1e.m4a'', stt_model = ''whisper-1'',
                            stt_language = ''en''\<rparr>]"
  using transcribe_extension_resolution [of
      "\<lparr>req_file = Some \<lparr>originalname = Some ''voice.memo.M4A'', path = ''uploads/7c1e''\<rparr>\<rparr>"
      "\<lparr>originalname = Some ''voice.memo.M4A'', path = ''uploads/7c1e''\<rparr>"
      "\<lparr>files = {''uploads/7c1e''}, trace = []\<rparr>" answering_provider]
  by (simp add: staged_extension_def final_extension_def toLowerCase_def lower_char_def
        allowed_extensions_def)

text \<open>
  The name \<open>clip.MP3\<close> has the extension \<open>MP3\<close>, which is not in the allow-list, and
  the file is forwarded as \<open>mp3\<close>: neither the fallback nor the extension as uploaded.
\<close>

theorem uppercase_extension_counterexample:
  "final_extension ''clip.MP3'' = ''MP3'' \<and> ''MP3'' \<notin> set allowed_extensions \<and>
   take 2 (trace (snd (transcribe_handler answering_provider
       \<lparr>req_file = Some \<lparr>originalname = Some ''clip.MP3'', path = ''uploads/3f9a''\<rparr>\<rparr>
       \<lparr>files = {''uploads/3f9a''}, trace = []\<rparr>))) =
     [RenameSync ''uploads/3f9a'' ''uploads/3f9a.mp3'',
      TranscriptionsCreate \<lparr>stt_file = ''uploads/3f9a.mp3'', stt_model = ''whisper-1'',
                            stt_language = ''en''\<rparr>]"
  by (simp add: transcribe_handler_def transcribe_try_def renameSync_def
        unlinkSync_def log_event_def answering_provider_def new_path_def whisper_params_def
        resolve_extension_def toLowerCase_def lower_char_def allowed_extensions_def
        final_extension_def json_response_def Let_def)

text \<open>
  Claim C8: a transcription request without a file is answered with status 400, and the
  handler makes no provider call and no file system call: the world is unchanged.
\<close>

theorem transcribe_missing_file_rejected:
  assumes "req_file req = None"
  shows "transcribe_handler pr req w =
           (\<lparr>status = 400, headers = [], body = Json [(''error'', ''No audio file provided'')]\<rparr>, w)"
  using assms by (simp add: transcribe_handler_def transcribe_try_def json_response_def)

theorem transcribe_missing_file_rejected_witness:
  "transcribe_handler answering_provider \<lparr>req_file = None\<rparr> \<lparr>files = {''uploads/old''}, trace = []\<rparr> =
     (\<lparr>status = 400, headers = [], body = Json [(''error'', ''No audio file provided'')]\<rparr>,
      \<lparr>files = {''uploads/old''}, trace = []\<rparr>)"
  using transcribe_missing_file_rejected [of "\<lparr>req_file = None\<rparr>" answering_provider
      "\<lparr>files = {''uploads/old''}, trace = []\<rparr>"]
  by simp

section \<open>The response and speech handlers\<close>

text \<open>
  A request that passes both checks reads the registry once and calls the provider once.
\<close>

lemma js_get_own: "map_of CHARACTER_PROMPTS c = Some cfg \<Longrightarrow> js_get CHARACTER_PROMPTS c = Own cfg"
  by (simp add: js_get_def)

lemma registry_key_not_empty: "map_of CHARACTER_PROMPTS c = Some cfg \<Longrightarrow> c \<noteq> []"
  by (auto simp: CHARACTER_PROMPTS_def split: if_splits)

lemma respond_try_checked:
  assumes "body_text req = Some txt" and "txt \<noteq> []"
    and "body_character req = Some c" and "c \<noteq> []"
    and "js_get CHARACTER_PROMPTS c = m" and "m \<noteq> Undefined"
  shows "respond_try pr req w =
    (let w2 = w\<lparr>trace := trace w @ [RegistryGet c, ChatCompletionsCreate (completion_params m txt)]\<rparr>
     in case chat_completions_create pr (completion_params m txt) of
          Inl e \<Rightarrow> (Throw e, w2)
        | Inr choices \<Rightarrow>
            (case first_choice choices of
               Throw e \<Rightarrow> (Throw e, w2)
             | Normal responseText \<Rightarrow>
                 (Normal (json_response 200
                    [(''text'', Some responseText), (''character'', member_name m)]), w2)))"
  using assms
  by (simp add: respond_try_def falsy_def log_event_def Let_def split: sum.splits completion.splits)

lemma tts_try_checked:
  assumes "body_text req = Some txt" and "txt \<noteq> []"
    and "body_character req = Some c" and "c \<noteq> []"
    and "js_get CHARACTER_PROMPTS c = m" and "m \<noteq> Undefined"
  shows "tts_try pr req w =
    (let w2 = w\<lparr>trace := trace w @ [RegistryGet c, SpeechCreate (tts_params m txt)]\<rparr>
     in case speech_create pr (tts_params m txt) of
          Inl e \<Rightarrow> (Throw e, w2)
        | Inr buffer \<Rightarrow> (Normal (audio_response buffer), w2))"
  using assms
  by (simp add: tts_try_def falsy_def log_event_def Let_def split: sum.splits)

lemma respond_checked_outcome:
  assumes "body_text req = Some txt" and "txt \<noteq> []"
    and "body_character req = Some c" and "c \<noteq> []"
    and "js_get CHARACTER_PROMPTS c = m" and "m \<noteq> Undefined"
  shows "trace (snd (respond_handler pr req w)) =
           trace w @ [RegistryGet c, ChatCompletionsCreate (completion_params m txt)]"
    and "status (fst (respond_handler pr req w)) \<in> {200, 500}"
  unfolding respond_handler_def respond_try_checked [OF assms]
  by (simp_all add: Let_def json_response_def split: sum.splits completion.splits)

lemma tts_checked_outcome:
  assumes "body_text req = Some txt" and "txt \<noteq> []"
    and "body_character req = Some c" and "c \<noteq> []"
    and "js_get CHARACTER_PROMPTS c = m" and "m \<noteq> Undefined"
  shows "trace (snd (tts_handler pr req w)) =
           trace w @ [RegistryGet c, SpeechCreate (tts_params m txt)]"
    and "status (fst (tts_handler pr req w)) \<in> {200, 500}"
  unfolding tts_handler_def tts_try_checked [OF assms]
  by (simp_all add: Let_def json_response_def audio_response_def split: sum.splits)

lemma respond_trace_valid:
  assumes "map_of CHARACTER_PROMPTS c = Some cfg"
    and "body_text req = Some txt" and "txt \<noteq> []" and "body_character req = Some c"
  shows "trace (snd (respond_handler pr req w)) =
           trace w @ [RegistryGet c, ChatCompletionsCreate (completion_params (Own cfg) txt)]"
  unfolding respond_handler_def
    respond_try_checked [OF assms(2,3,4) registry_key_not_empty [OF assms(1)] js_get_own [OF assms(1)]
      js_member.distinct(3)]
  by (simp add: Let_def split: sum.splits completion.splits)

lemma tts_trace_valid:
  assumes "map_of CHARACTER_PROMPTS c = Some cfg"
    and "body_text req = Some txt" and "txt \<noteq> []" and "body_character req = Some c"
  shows "trace (snd (tts_handler pr req w)) =
           trace w @ [RegistryGet c, SpeechCreate (tts_params (Own cfg) txt)]"
  unfolding tts_handler_def
    tts_try_checked [OF assms(2,3,4) registry_key_not_empty [OF assms(1)] js_get_own [OF assms(1)]
      js_member.distinct(3)]
  by (simp add: Let_def split: sum.splits)

lemma unresolved_key_rejected:
  assumes "body_text req = Some txt" and "txt \<noteq> []"
    and "body_character req = Some c" and "c \<noteq> []"
    and "js_get CHARACTER_PROMPTS c = Undefined"
  shows "respond_handler pr req w = (invalid_character, log_event (RegistryGet c) w)"
    and "tts_handler pr req w = (invalid_character, log_event (RegistryGet c) w)"
  using assms
  by (simp_all add: respond_handler_def respond_try_def tts_handler_def tts_try_def falsy_def
        Let_def)

lemma js_get_constructor: "js_get CHARACTER_PROMPTS ''constructor'' = Inherited ''constructor''"
  by (simp add: js_get_def CHARACTER_PROMPTS_def object_prototype_keys_def)

text \<open>
  Claim C2, as the code has it: when the provider call fails, each handler answers with
  status 500; the transcription handler's body carries the provider's message in
  \<open>details\<close>, the other two bodies carry only their fixed \<open>error\<close> text.
\<close>

theorem provider_failure_responses:
  "(req_file rq = Some f \<and> path f \<in> files w \<and>
      transcriptions_create pr (whisper_params (new_path f)) = Inl e
    \<longrightarrow> fst (transcribe_handler pr rq w) =
          \<lparr>status = 500, headers = [],
           body = Json [(''error'', ''Transcription failed''), (''details'', e)]\<rparr>) \<and>
   (body_text req = Some txt \<and> txt \<noteq> [] \<and> body_character req = Some c \<and> c \<noteq> [] \<and>
      js_get CHARACTER_PROMPTS c \<noteq> Undefined \<and>
      chat_completions_create pr (completion_params (js_get CHARACTER_PROMPTS c) txt) = Inl e
    \<longrightarrow> fst (respond_handler pr req w) =
          \<lparr>status = 500, headers = [],
           body = Json [(''error'', ''Response generation failed'')]\<rparr>) \<and>
   (body_text req = Some txt \<and> txt \<noteq> [] \<and> body_character req = Some c \<and> c \<noteq> [] \<and>
      js_get CHARACTER_PROMPTS c \<noteq> Undefined \<and>
      speech_create pr (tts_params (js_get CHARACTER_PROMPTS c) txt) = Inl e
    \<longrightarrow> fst (tts_handler pr req w) =
          \<lparr>status = 500, headers = [],
           body = Json [(''error'', ''TTS generation failed'')]\<rparr>)"
  by (auto simp: transcribe_handler_def transcribe_try_def transcribe_catch_def renameSync_def
        log_event_def Let_def json_response_def respond_handler_def respond_try_checked
        tts_handler_def tts_try_checked)

theorem provider_failure_responses_witness:
  "fst (transcribe_handler (failing_provider ''boom'')
          \<lparr>req_file = Some \<lparr>originalname = Some ''a.wav'', path = ''uploads/51d0''\<rparr>\<rparr>
          \<lparr>files = {''uploads/51d0''}, trace = []\<rparr>) =
     \<lparr>status = 500, headers = [],
      body = Json [(''error'', ''Transcription failed''), (''details'', ''boom'')]\<rparr> \<and>
   fst (respond_handler (failing_provider ''boom'')
          \<lparr>body_text = Some ''hi'', body_character = Some ''sansa''\<rparr>
          \<lparr>files = {''uploads/51d0''}, trace = []\<rparr>) =
     \<lparr>status = 500, headers = [], body = Json [(''error'', ''Response generation failed'')]\<rparr> \<and>
   fst (tts_handler (failing_provider ''boom'')
          \<lparr>body_text = Some ''hi'', body_character = Some ''sansa''\<rparr>
          \<lparr>files = {''uploads/51d0''}, trace = []\<rparr>) =
     \<lparr>status = 500, headers = [], body = Json [(''error'', ''TTS generation failed'')]\<rparr>"
  using provider_failure_responses [of
      "\<lparr>req_file = Some \<lparr>originalname = Some ''a.wav'', path = ''uploads/51d0''\<rparr>\<rparr>"
      "\<lparr>originalname = Some ''a.wav'', path = ''uploads/51d0''\<rparr>"
      "\<lparr>files = {''uploads/51d0''}, trace = []\<rparr>"
      "failing_provider ''boom''" "''boom''"
      "\<lparr>body_text = Some ''hi'', body_character = Some ''sansa''\<rparr>" "''hi''" "''sansa''"]
  by (simp add: failing_provider_def js_get_def CHARACTER_PROMPTS_def)

text \<open>
  A failed generation call with the message \<open>boom\<close>: the answer is the fixed text, and
  no field of the body is the provider's message.
\<close>

theorem respond_failure_message_counterexample:
  "fst (respond_handler (failing_provider ''boom'')
          \<lparr>body_text = Some ''hi'', body_character = Some ''jon-snow''\<rparr>
          \<lparr>files = {}, trace = []\<rparr>) =
     \<lparr>status = 500, headers = [], body = Json [(''error'', ''Response generation failed'')]\<rparr> \<and>
   ''boom'' \<notin> set (json_values (fst (respond_handler (failing_provider ''boom'')
          \<lparr>body_text = Some ''hi'', body_character = Some ''jon-snow''\<rparr>
          \<lparr>files = {}, trace = []\<rparr>)))"
  by (simp add: respond_handler_def respond_try_def falsy_def log_event_def Let_def
        failing_provider_def js_get_def CHARACTER_PROMPTS_def json_response_def json_values_def)

text \<open>
  Claim C3 says that a character that is not an entry of the registry is answered with
  status 400 and no provider call. The key \<open>constructor\<close> is no entry, yet the property
  read finds the member that every object inherits; the check for a missing config lets
  it pass, and both handlers call the provider, with no prompt and with no voice.
\<close>

theorem inherited_key_reaches_provider:
  "status (fst (respond_handler pr \<lparr>body_text = Some ''hi'', body_character = Some ''constructor''\<rparr> w))
     \<noteq> 400 \<and>
   trace (snd (respond_handler pr \<lparr>body_text = Some ''hi'', body_character = Some ''constructor''\<rparr> w)) =
     trace w @ [RegistryGet ''constructor'',
       ChatCompletionsCreate
         \<lparr>chat_model = ''gpt-4o-mini'',
          chat_messages = [\<lparr>role = ''system'', content = None\<rparr>,
                           \<lparr>role = ''user'', content = Some ''hi''\<rparr>],
          chat_max_tokens = 100, chat_temperature = 8 / 10\<rparr>] \<and>
   status (fst (tts_handler pr \<lparr>body_text = Some ''hi'', body_character = Some ''constructor''\<rparr> w))
     \<noteq> 400 \<and>
   trace (snd (tts_handler pr \<lparr>body_text = Some ''hi'', body_character = Some ''constructor''\<rparr> w)) =
     trace w @ [RegistryGet ''constructor'',
       SpeechCreate \<lparr>tts_model = ''tts-1'', tts_voice = None, tts_input = ''hi'',
                     tts_speed = 11 / 10\<rparr>]"
proof -
  let ?req = "\<lparr>body_text = Some ''hi'', body_character = Some ''constructor''\<rparr>"
  have t: "body_text ?req = Some ''hi''" and c: "body_character ?req = Some ''constructor''"
    by simp_all
  have ne: "''hi'' \<noteq> []" "''constructor'' \<noteq> []" "Inherited ''constructor'' \<noteq> Undefined"
    by simp_all
  note r = respond_checked_outcome [OF t ne(1) c ne(2) js_get_constructor ne(3), of pr w]
  note s = tts_checked_outcome [OF t ne(1) c ne(2) js_get_constructor ne(3), of pr w]
  from r(2) have "status (fst (respond_handler pr ?req w)) \<noteq> 400" by auto
  moreover from s(2) have "status (fst (tts_handler pr ?req w)) \<noteq> 400" by auto
  ultimately show ?thesis
    using r(1) s(1) by (simp add: completion_params_def tts_params_def)
qed

text \<open>
  Claim C4: for a valid persona and a non-empty text the generation call has
  \<open>max_tokens = 100\<close> and \<open>temperature = 0.8\<close>, and it is the same call whatever the
  persona's own generation parameters \<open>gp\<close> are.
\<close>

theorem respond_fixed_generation_settings:
  assumes "map_of CHARACTER_PROMPTS c = Some cfg"
    and "body_text req = Some txt" and "txt \<noteq> []" and "body_character req = Some c"
  shows "\<exists>call. trace (snd (respond_handler pr req w)) =
                  trace w @ [RegistryGet c, ChatCompletionsCreate call] \<and>
                chat_max_tokens call = 100 \<and> chat_temperature call = 8 / 10 \<and>
                call = completion_params (Own (cfg\<lparr>params := gp\<rparr>)) txt"
  using respond_trace_valid [OF assms, of pr w]
  by (simp add: completion_params_def)

theorem respond_fixed_generation_settings_witness:
  "temperature (params \<lparr>name = ''Jon Snow'', voice = ''onyx'',
       params = \<lparr>temperature = 6 / 10, top_p = 85 / 100\<rparr>, prompt = jon_snow_prompt\<rparr>) = 6 / 10 \<and>
   (\<exists>call. trace (snd (respond_handler answering_provider
                \<lparr>body_text = Some ''Who are you?'', body_character = Some ''jon-snow''\<rparr>
                \<lparr>files = {}, trace = []\<rparr>)) =
              [] @ [RegistryGet ''jon-snow'', ChatCompletionsCreate call] \<and>
            chat_max_tokens call = 100 \<and> chat_temperature call = 8 / 10 \<and>
            call = completion_params
                     (Own \<lparr>name = ''Jon Snow'', voice = ''onyx'',
                           params = \<lparr>temperature = 1, top_p = 1\<rparr>,
                           prompt = jon_snow_prompt\<rparr>) ''Who are you?'')"
  using respond_fixed_generation_settings [of "''jon-snow''"
      "\<lparr>name = ''Jon Snow'', voice = ''onyx'',
        params = \<lparr>temperature = 6 / 10, top_p = 85 / 100\<rparr>, prompt = jon_snow_prompt\<rparr>"
      "\<lparr>body_text = Some ''Who are you?'', body_character = Some ''jon-snow''\<rparr>"
      "''Who are you?''" answering_provider "\<lparr>files = {}, trace = []\<rparr>"
      "\<lparr>temperature = 1, top_p = 1\<rparr>"]
  by (simp add: CHARACTER_PROMPTS_def)

text \<open>
  Claim C6: for a valid persona and a non-empty text the generation call has exactly two
  messages, the system message with the persona's prompt and the user message with the
  request's text.
\<close>

theorem respond_messages:
  assumes "map_of CHARACTER_PROMPTS c = Some cfg"
    and "body_text req = Some txt" and "txt \<noteq> []" and "body_character req = Some c"
  shows "\<exists>call. trace (snd (respond_handler pr req w)) =
                  trace w @ [RegistryGet c, ChatCompletionsCreate call] \<and>
                chat_messages call =
                  [\<lparr>role = ''system'', content = Some (prompt cfg)\<rparr>,
                   \<lparr>role = ''user'', content = Some txt\<rparr>]"
  using respond_trace_valid [OF assms, of pr w]
  by (simp add: completion_params_def)

theorem respond_messages_witness:
  "\<exists>call. trace (snd (respond_handler answering_provider
               \<lparr>body_text = Some ''Where is Ghost?'', body_character = Some ''jon-snow''\<rparr>
               \<lparr>files = {}, trace = []\<rparr>)) =
             [] @ [RegistryGet ''jon-snow'', ChatCompletionsCreate call] \<and>
           chat_messages call =
             [\<lparr>role = ''system'', content = Some jon_snow_prompt\<rparr>,
              \<lparr>role = ''user'', content = Some ''Where is Ghost?''\<rparr>]"
  using respond_messages [of "''jon-snow''"
      "\<lparr>name = ''Jon Snow'', voice = ''onyx'',
        params = \<lparr>temperature = 6 / 10, top_p = 85 / 100\<rparr>, prompt = jon_snow_prompt\<rparr>"
      "\<lparr>body_text = Some ''Where is Ghost?'', body_character = Some ''jon-snow''\<rparr>"
      "''Where is Ghost?''" answering_provider "\<lparr>files = {}, trace = []\<rparr>"]
  by (simp add: CHARACTER_PROMPTS_def)

text \<open>
  Claim C7: for a valid persona and a non-empty text the synthesis call has the persona's
  voice, the request's text and the speed 1.1, which is greater than 1.
\<close>

theorem tts_voice_input_speed:
  assumes "map_of CHARACTER_PROMPTS c = Some cfg"
    and "body_text req = Some txt" and "txt \<noteq> []" and "body_character req = Some c"
  shows "\<exists>call. trace (snd (tts_handler pr req w)) =
                  trace w @ [RegistryGet c, SpeechCreate call] \<and>
                tts_voice call = Some (voice cfg) \<and> tts_input call = txt \<and>
                tts_speed call = 11 / 10 \<and> 1 < tts_speed call"
  using tts_trace_valid [OF assms, of pr w]
  by (simp add: tts_params_def)

theorem tts_voice_input_speed_witness:
  "\<exists>call. trace (snd (tts_handler answering_provider
               \<lparr>body_text = Some ''Dracarys.'', body_character = Some ''daenerys''\<rparr>
               \<lparr>files = {}, trace = []\<rparr>)) =
             [] @ [RegistryGet ''daenerys'', SpeechCreate call] \<and>
           tts_voice call = Some ''nova'' \<and> tts_input call = ''Dracarys.'' \<and>
           tts_speed call = 11 / 10 \<and> 1 < tts_speed call"
  using tts_voice_input_speed [of "''daenerys''"
      "\<lparr>name = ''Daenerys Targaryen'', voice = ''nova'',
        params = \<lparr>temperature = 8 / 10, top_p = 9 / 10\<rparr>, prompt = daenerys_prompt\<rparr>"
      "\<lparr>body_text = Some ''Dracarys.'', body_character = Some ''daenerys''\<rparr>"
      "''Dracarys.''" answering_provider "\<lparr>files = {}, trace = []\<rparr>"]
  by (simp add: CHARACTER_PROMPTS_def)

text \<open>
  Claim C9: when the speech handler answers with status 200, the body is the buffer that
  the provider returned, \<open>Content-Type\<close> is \<open>audio/mpeg\<close> and \<open>Content-Length\<close> is the
  length of that buffer.
\<close>

theorem tts_success_response:
  assumes "status (fst (tts_handler pr req w)) = 200"
  shows "\<exists>call buffer.
           last (trace (snd (tts_handler pr req w))) = SpeechCreate call \<and>
           speech_create pr call = Inr buffer \<and>
           fst (tts_handler pr req w) =
             \<lparr>status = 200,
              headers = [(''Content-Type'', HStr ''audio/mpeg''),
                         (''Content-Length'', HNum (length buffer))],
              body = Binary buffer\<rparr>"
  using assms
  by (auto simp: tts_handler_def tts_try_def Let_def log_event_def json_response_def
        missing_fields_def invalid_character_def audio_response_def
      split: if_splits option.splits sum.splits prod.splits completion.splits)

theorem tts_success_response_witness:
  "status (fst (tts_handler answering_provider
             \<lparr>body_text = Some ''The North remembers.'', body_character = Some ''sansa''\<rparr>
             \<lparr>files = {}, trace = []\<rparr>)) = 200 \<and>
   (\<exists>call buffer.
      last (trace (snd (tts_handler answering_provider
             \<lparr>body_text = Some ''The North remembers.'', body_character = Some ''sansa''\<rparr>
             \<lparr>files = {}, trace = []\<rparr>))) = SpeechCreate call \<and>
      speech_create answering_provider call = Inr buffer \<and>
      fst (tts_handler answering_provider
             \<lparr>body_text = Some ''The North remembers.'', body_character = Some ''sansa''\<rparr>
             \<lparr>files = {}, trace = []\<rparr>) =
        \<lparr>status = 200,
         headers = [(''Content-Type'', HStr ''audio/mpeg''),
                    (''Content-Length'', HNum (length buffer))],
         body = Binary buffer\<rparr>)"
proof -
  have ok: "status (fst (tts_handler answering_provider
             \<lparr>body_text = Some ''The North remembers.'', body_character = Some ''sansa''\<rparr>
             \<lparr>files = {}, trace = []\<rparr>)) = 200"
    by (simp add: tts_handler_def tts_try_def falsy_def log_event_def Let_def
          answering_provider_def js_get_def CHARACTER_PROMPTS_def audio_response_def)
  from ok tts_success_response [OF ok] show ?thesis by blast
qed

text \<open>
  Claim C10: when the text or the character of the body is the empty string, both
  handlers answer with the 400 missing-field error and do nothing else: no registry
  read and no provider call, the world is unchanged.
\<close>

theorem empty_field_rejected:
  assumes "body_text req = Some [] \<or> body_character req = Some []"
  shows "respond_handler pr req w =
           (\<lparr>status = 400, headers = [],
             body = Json [(''error'', ''Missing text or character'')]\<rparr>, w) \<and>
         tts_handler pr req w =
           (\<lparr>status = 400, headers = [],
             body = Json [(''error'', ''Missing text or character'')]\<rparr>, w)"
  using assms
  by (auto simp: respond_handler_def respond_try_def tts_handler_def tts_try_def falsy_def
        missing_fields_def json_response_def)

theorem empty_field_rejected_witness:
  "respond_handler answering_provider \<lparr>body_text = Some [], body_character = Some ''jon-snow''\<rparr>
       \<lparr>files = {}, trace = []\<rparr> =
     (\<lparr>status = 400, headers = [], body = Json [(''error'', ''Missing text or character'')]\<rparr>,
      \<lparr>files = {}, trace = []\<rparr>) \<and>
   tts_handler answering_provider \<lparr>body_text = Some [], body_character = Some ''jon-snow''\<rparr>
       \<lparr>files = {}, trace = []\<rparr> =
     (\<lparr>status = 400, headers = [], body = Json [(''error'', ''Missing text or character'')]\<rparr>,
      \<lparr>files = {}, trace = []\<rparr>)"
  using empty_field_rejected [of
      "\<lparr>body_text = Some [], body_character = Some ''jon-snow''\<rparr>"
      answering_provider "\<lparr>files = {}, trace = []\<rparr>"]
  by simp

end
